theory Spec2Isabelle
  imports Main
begin

section \<open>JavaScript values the two handlers work with\<close>

text \<open>
  The repository holds two request handlers: \<^verbatim>\<open>fetch(request)\<close> of \<^verbatim>\<open>worker.js\<close> (the
  edge-worker variant) and the \<^verbatim>\<open>/stream_proxy\<close> route of \<^verbatim>\<open>server.js\<close> (the standalone
  server variant). Both call into their runtime: the \<^verbatim>\<open>URL\<close> constructor and
  \<^verbatim>\<open>fetch\<close>. These two are parameters of the model:
  \<^item> \<open>URL_new s\<close> is \<^verbatim>\<open>new URL(s)\<close>: \<open>Inl err\<close> when the constructor throws \<open>err\<close>,
    \<open>Inr u\<close> when it returns the URL object \<open>u\<close>;
  \<^item> \<open>fetch call\<close> is \<^verbatim>\<open>await fetch(target, {headers})\<close>: \<open>Inl err\<close> when the awaited
    promise rejects (or the call throws), \<open>Inr upstream\<close> when it resolves.
  A thrown value is an \<^verbatim>\<open>Error\<close> object, of which the handlers read \<^verbatim>\<open>message\<close> only.
\<close>

datatype js_error = JsError (message: string)

text \<open>
  A \<^verbatim>\<open>Headers\<close> object is read through \<^verbatim>\<open>get(name)\<close> only: \<open>h name\<close> is
  \<^verbatim>\<open>h.get(name)\<close>, and \<open>None\<close> is \<^verbatim>\<open>null\<close>.
\<close>

type_synonym Headers = "string \<rightharpoonup> string"

datatype body = Null | Text string | Stream string

text \<open>The URL object: the two members the worker reads.\<close>

record URL =
  origin :: string
  searchParams :: "(string \<times> string) list"

text \<open>\<^verbatim>\<open>searchParams.get(name)\<close>: the first value of that name, or \<^verbatim>\<open>null\<close>.\<close>

definition searchParams_get :: "URL \<Rightarrow> string \<Rightarrow> string option" where
  "searchParams_get u name = map_of (searchParams u) name"

text \<open>Truthiness and \<^verbatim>\<open>String(v)\<close> of a value that is a string or \<^verbatim>\<open>null\<close>.\<close>

definition truthy :: "string option \<Rightarrow> bool" where
  "truthy v = (case v of None \<Rightarrow> False | Some s \<Rightarrow> s \<noteq> [])"

definition ToString :: "string option \<Rightarrow> string" where
  "ToString v = (case v of None \<Rightarrow> ''null'' | Some s \<Rightarrow> s)"

text \<open>\<^verbatim>\<open>v || d\<close> with a default \<open>d\<close> whose evaluation cannot throw.\<close>

definition or_else :: "string option \<Rightarrow> string \<Rightarrow> string" where
  "or_else v d = (case v of None \<Rightarrow> d | Some s \<Rightarrow> if s = [] then d else s)"

text \<open>
  The response \<^verbatim>\<open>fetch\<close> resolves to (the members the handlers read), and one call of
  \<^verbatim>\<open>fetch\<close>: its first argument and the \<^verbatim>\<open>headers\<close> object literal of its second, in
  the order written.
\<close>

record upstream_response =
  status :: nat
  headers :: Headers
  body :: body

record 't fetch_call =
  target :: 't
  init_headers :: "(string \<times> string) list"

section \<open>The edge worker: \<^verbatim>\<open>worker.js\<close>\<close>

record Request =
  url :: string
  req_headers :: Headers

text \<open>
  A response object is kept as the arguments it was constructed from; \<open>resp_headers\<close> is
  \<open>None\<close> where the init object has no \<^verbatim>\<open>headers\<close> member.
\<close>

record Response =
  resp_body :: body
  resp_status :: nat
  resp_headers :: "Headers option"

text \<open>
  \<^verbatim>\<open>new Response(body, {status, headers})\<close>. The constructor throws a \<^verbatim>\<open>RangeError\<close> for a
  status outside 200 to 599, and a \<^verbatim>\<open>TypeError\<close> when a body is given with a status that
  allows none (101, 103, 204, 205, 304); otherwise it returns the response.
\<close>

definition status_range_error :: js_error where
  "status_range_error =
     JsError
       ''Responses may only be constructed with status codes in the range 200 to 599, inclusive.''"

definition null_body_error :: js_error where
  "null_body_error = JsError ''Response with null body status cannot have body''"

definition null_body_status :: "nat \<Rightarrow> bool" where
  "null_body_status st = (st = 101 \<or> st = 103 \<or> st = 204 \<or> st = 205 \<or> st = 304)"

definition new_Response :: "body \<Rightarrow> nat \<Rightarrow> Headers option \<Rightarrow> js_error + Response" where
  "new_Response b st hs =
     (if st < 200 \<or> 599 < st then Inl status_range_error
      else if b \<noteq> Null \<and> null_body_status st then Inl null_body_error
      else Inr \<lparr>resp_body = b, resp_status = st, resp_headers = hs\<rparr>)"

text \<open>
  Line 5:
  \<^verbatim>\<open>const ref = url.searchParams.get("ref") || new URL(target).origin + "/";\<close>
  The right operand is evaluated only when the \<^verbatim>\<open>ref\<close> parameter is \<^verbatim>\<open>null\<close> or empty;
  \<^verbatim>\<open>new URL(target)\<close> converts \<^verbatim>\<open>target\<close> to a string first, so a \<^verbatim>\<open>null\<close> target is
  parsed as the text \<^verbatim>\<open>null\<close>.
\<close>

definition worker_ref ::
  "(string \<Rightarrow> js_error + URL) \<Rightarrow> string option \<Rightarrow> string option \<Rightarrow> js_error + string" where
  "worker_ref URL_new ref_param tgt =
     (case ref_param of
        Some s \<Rightarrow>
          if s \<noteq> [] then Inr s
          else (case URL_new (ToString tgt) of
                  Inl err \<Rightarrow> Inl err
                | Inr t \<Rightarrow> Inr (origin t @ ''/''))
      | None \<Rightarrow>
          (case URL_new (ToString tgt) of
             Inl err \<Rightarrow> Inl err
           | Inr t \<Rightarrow> Inr (origin t @ ''/'')))"

text \<open>
  The responses of lines 8 and 26. Their statuses are written in the source and their
  bodies are strings, so the constructor returns them (lemma \<open>new_Response_literals\<close>).
\<close>

definition missing_url :: Response where
  "missing_url = \<lparr>resp_body = Text ''Missing ?url='', resp_status = 400, resp_headers = None\<rparr>"

definition proxy_error :: "js_error \<Rightarrow> Response" where
  "proxy_error err =
     \<lparr>resp_body = Text (''Proxy error: '' @ message err), resp_status = 500,
      resp_headers = None\<rparr>"

text \<open>
  Lines 11 to 27, the \<^verbatim>\<open>try\<close> statement. The arguments of \<^verbatim>\<open>fetch\<close> are evaluated before
  the call, so \<^verbatim>\<open>new URL(ref)\<close> may throw before any request is made; after the call,
  the constructor of lines 21 to 24 may throw on what the upstream sent. Every exception
  in the block ends in the \<^verbatim>\<open>catch\<close> clause. The second component is the list of
  \<^verbatim>\<open>fetch\<close> calls made.
\<close>

definition worker_try ::
  "(string \<Rightarrow> js_error + URL) \<Rightarrow> (string fetch_call \<Rightarrow> js_error + upstream_response) \<Rightarrow>
   Request \<Rightarrow> string \<Rightarrow> string \<Rightarrow> Response \<times> string fetch_call list" where
  "worker_try URL_new fetch request tgt ref =
     (case URL_new ref of
        Inl err \<Rightarrow> (proxy_error err, [])
      | Inr r \<Rightarrow>
          (let call = \<lparr>target = tgt,
                       init_headers =
                         [(''User-Agent'', ''Mozilla/5.0 (compatible; StreamProxy/1.0)''),
                          (''Referer'', ref),
                          (''Origin'', origin r),
                          (''Range'', or_else (req_headers request ''Range'') '''')]\<rparr>
           in case fetch call of
                Inl err \<Rightarrow> (proxy_error err, [call])
              | Inr upstream \<Rightarrow>
                  (case new_Response (body upstream) (status upstream)
                          (Some (headers upstream)) of
                     Inl err \<Rightarrow> (proxy_error err, [call])
                   | Inr response \<Rightarrow> (response, [call]))))"

text \<open>
  The handler. \<open>Inl err\<close> in the first component is an exception that leaves the handler
  uncaught; \<open>Inr response\<close> is the response returned.
\<close>

definition worker_fetch ::
  "(string \<Rightarrow> js_error + URL) \<Rightarrow> (string fetch_call \<Rightarrow> js_error + upstream_response) \<Rightarrow>
   Request \<Rightarrow> (js_error + Response) \<times> string fetch_call list" where
  "worker_fetch URL_new fetch request =
     (case URL_new (url request) of
        Inl err \<Rightarrow> (Inl err, [])
      | Inr u \<Rightarrow>
          (let tgt = searchParams_get u ''url''
           in case worker_ref URL_new (searchParams_get u ''ref'') tgt of
                Inl err \<Rightarrow> (Inl err, [])
              | Inr ref \<Rightarrow>
                  (case tgt of
                     None \<Rightarrow> (Inr missing_url, [])
                   | Some t \<Rightarrow>
                       if t = [] then (Inr missing_url, [])
                       else (let (response, calls) = worker_try URL_new fetch request t ref
                             in (Inr response, calls)))))"

section \<open>The standalone server: \<^verbatim>\<open>server.js\<close>\<close>

text \<open>
  \<^verbatim>\<open>req.query\<close> is what Express parsed from the query string: a member is a string, an
  array or a nested object; a name that does not occur is \<^verbatim>\<open>undefined\<close> (\<open>None\<close>).
\<close>

datatype query_value =
  QString string
| QArray "query_value list"
| QObject "(string \<times> query_value) list"

fun truthy_query :: "query_value \<Rightarrow> bool" where
  "truthy_query (QString s) = (s \<noteq> [])"
| "truthy_query (QArray vs) = True"
| "truthy_query (QObject kvs) = True"

record express_req =
  query :: "string \<rightharpoonup> query_value"
  in_headers :: Headers

text \<open>
  The response object \<^verbatim>\<open>res\<close> is state: the handler updates it. \<open>res_headers\<close> holds the
  value each \<^verbatim>\<open>res.set(field, value)\<close> was given (\<open>None\<close> for \<^verbatim>\<open>null\<close>). A new response
  object has status code 200.
\<close>

datatype res_body = Unsent | Sent string | Piped body

record express_res =
  statusCode :: nat
  res_headers :: "string \<rightharpoonup> string option"
  res_body :: res_body

definition new_res :: express_res where
  "new_res = \<lparr>statusCode = 200, res_headers = Map.empty, res_body = Unsent\<rparr>"

definition res_status :: "express_res \<Rightarrow> nat \<Rightarrow> express_res" where
  "res_status res code = res\<lparr>statusCode := code\<rparr>"

definition res_send :: "express_res \<Rightarrow> string \<Rightarrow> express_res" where
  "res_send res text = res\<lparr>res_body := Sent text\<rparr>"

definition res_set :: "express_res \<Rightarrow> string \<Rightarrow> string option \<Rightarrow> express_res" where
  "res_set res field val = res\<lparr>res_headers := (res_headers res)(field \<mapsto> val)\<rparr>"

definition pipe :: "body \<Rightarrow> express_res \<Rightarrow> express_res" where
  "pipe b res = res\<lparr>res_body := Piped b\<rparr>"

text \<open>
  The route handler: the updated \<^verbatim>\<open>res\<close> and the list of \<^verbatim>\<open>fetch\<close> calls made.
\<close>

definition stream_proxy ::
  "(query_value fetch_call \<Rightarrow> js_error + upstream_response) \<Rightarrow> express_req \<Rightarrow> express_res \<Rightarrow>
   express_res \<times> query_value fetch_call list" where
  "stream_proxy fetch req res =
     (case query req ''url'' of
        None \<Rightarrow> (res_send (res_status res 400) ''Missing url param'', [])
      | Some tgt \<Rightarrow>
          if \<not> truthy_query tgt then (res_send (res_status res 400) ''Missing url param'', [])
          else (let call = \<lparr>target = tgt,
                             init_headers =
                               [(''User-Agent'', ''Mozilla/5.0''),
                                (''Referer'', ''https://fancode.com/''),
                                (''Origin'', ''https://fancode.com/'')]\<rparr>
                in case fetch call of
                     Inl err \<Rightarrow>
                       (res_send (res_status res 500) (''Proxy error: '' @ message err), [call])
                   | Inr response \<Rightarrow>
                       (pipe (body response)
                          (res_set res ''Content-Type'' (headers response ''content-type'')),
                        [call])))"

section \<open>Concrete requests and a concrete runtime\<close>

text \<open>
  A finite fragment of the runtime, on which the handlers are run below. \<open>fixture_URL\<close>
  is the \<^verbatim>\<open>URL\<close> constructor on the strings that occur in these runs: an absolute
  \<^verbatim>\<open>https\<close> URL is parsed into its origin and query parameters; \<^verbatim>\<open>null\<close>, the empty
  string and \<^verbatim>\<open>foo\<close> have no scheme, and the constructor throws.
\<close>

definition fixture_URL :: "string \<Rightarrow> js_error + URL" where
  "fixture_URL s =
     (if s = ''https://proxy.example/?url=https://cdn.example.com/live/a.m3u8'' then
        Inr \<lparr>origin = ''https://proxy.example'',
             searchParams = [(''url'', ''https://cdn.example.com/live/a.m3u8'')]\<rparr>
      else if s = ''https://proxy.example/?ref=https://site.example/'' then
        Inr \<lparr>origin = ''https://proxy.example'',
             searchParams = [(''ref'', ''https://site.example/'')]\<rparr>
      else if s = ''https://proxy.example/?url=foo'' then
        Inr \<lparr>origin = ''https://proxy.example'', searchParams = [(''url'', ''foo'')]\<rparr>
      else if s = ''https://proxy.example/'' then
        Inr \<lparr>origin = ''https://proxy.example'', searchParams = []\<rparr>
      else if s = ''https://cdn.example.com/live/a.m3u8'' then
        Inr \<lparr>origin = ''https://cdn.example.com'', searchParams = []\<rparr>
      else if s = ''https://cdn.example.com/'' then
        Inr \<lparr>origin = ''https://cdn.example.com'', searchParams = []\<rparr>
      else Inl (JsError ''Invalid URL''))"

definition playlist :: upstream_response where
  "playlist =
     \<lparr>status = 206,
      headers = [''content-type'' \<mapsto> ''application/vnd.apple.mpegurl''],
      body = Stream ''#EXTM3U''\<rparr>"

definition not_found :: upstream_response where
  "not_found =
     \<lparr>status = 404, headers = [''content-type'' \<mapsto> ''text/html''],
      body = Stream ''Not Found''\<rparr>"

definition denied :: upstream_response where
  "denied =
     \<lparr>status = 999, headers = [''content-type'' \<mapsto> ''text/html''],
      body = Stream ''Request denied''\<rparr>"

text \<open>
  Four networks: one that serves the playlist, one that answers 404, one that is down,
  one whose server answers with the status 999.
\<close>

definition fixture_fetch :: "string fetch_call \<Rightarrow> js_error + upstream_response" where
  "fixture_fetch call =
     (if target call = ''https://cdn.example.com/live/a.m3u8'' then Inr playlist
      else Inl (JsError ''fetch failed''))"

definition missing_fetch :: "query_value fetch_call \<Rightarrow> js_error + upstream_response" where
  "missing_fetch call =
     (if target call = QString ''https://cdn.example.com/live/a.m3u8'' then Inr not_found
      else Inl (JsError ''fetch failed''))"

definition refusing_fetch :: "'t fetch_call \<Rightarrow> js_error + upstream_response" where
  "refusing_fetch call = Inl (JsError ''connection refused'')"

definition denying_fetch :: "string fetch_call \<Rightarrow> js_error + upstream_response" where
  "denying_fetch call = Inr denied"

text \<open>Requests to the worker, and the call the first one leads to.\<close>

definition playlist_request :: Request where
  "playlist_request =
     \<lparr>url = ''https://proxy.example/?url=https://cdn.example.com/live/a.m3u8'',
      req_headers = [''Range'' \<mapsto> ''bytes=0-1023'']\<rparr>"

definition playlist_request_no_range :: Request where
  "playlist_request_no_range =
     \<lparr>url = ''https://proxy.example/?url=https://cdn.example.com/live/a.m3u8'',
      req_headers = [''Accept'' \<mapsto> ''*/*'']\<rparr>"

definition playlist_request_accept :: Request where
  "playlist_request_accept =
     \<lparr>url = ''https://proxy.example/?url=https://cdn.example.com/live/a.m3u8'',
      req_headers = [''Range'' \<mapsto> ''bytes=0-1023'', ''Accept'' \<mapsto> ''*/*'']\<rparr>"

definition bare_request :: Request where
  "bare_request = \<lparr>url = ''https://proxy.example/'', req_headers = Map.empty\<rparr>"

definition ref_only_request :: Request where
  "ref_only_request =
     \<lparr>url = ''https://proxy.example/?ref=https://site.example/'', req_headers = Map.empty\<rparr>"

definition malformed_request :: Request where
  "malformed_request = \<lparr>url = ''https://proxy.example/?url=foo'', req_headers = Map.empty\<rparr>"

definition playlist_call :: "string fetch_call" where
  "playlist_call =
     \<lparr>target = ''https://cdn.example.com/live/a.m3u8'',
      init_headers =
        [(''User-Agent'', ''Mozilla/5.0 (compatible; StreamProxy/1.0)''),
         (''Referer'', ''https://cdn.example.com/''),
         (''Origin'', ''https://cdn.example.com''),
         (''Range'', ''bytes=0-1023'')]\<rparr>"

definition playlist_call_no_range :: "string fetch_call" where
  "playlist_call_no_range =
     \<lparr>target = ''https://cdn.example.com/live/a.m3u8'',
      init_headers =
        [(''User-Agent'', ''Mozilla/5.0 (compatible; StreamProxy/1.0)''),
         (''Referer'', ''https://cdn.example.com/''),
         (''Origin'', ''https://cdn.example.com''),
         (''Range'', [])]\<rparr>"

text \<open>Requests to the server, and the call the first one leads to.\<close>

definition playlist_req :: express_req where
  "playlist_req =
     \<lparr>query = [''url'' \<mapsto> QString ''https://cdn.example.com/live/a.m3u8''],
      in_headers = [''Range'' \<mapsto> ''bytes=0-1023'']\<rparr>"

definition playlist_req_plain :: express_req where
  "playlist_req_plain =
     \<lparr>query = [''url'' \<mapsto> QString ''https://cdn.example.com/live/a.m3u8'',
               ''ref'' \<mapsto> QString ''https://site.example/''],
      in_headers = Map.empty\<rparr>"

definition node_call :: "query_value fetch_call" where
  "node_call =
     \<lparr>target = QString ''https://cdn.example.com/live/a.m3u8'',
      init_headers =
        [(''User-Agent'', ''Mozilla/5.0''),
         (''Referer'', ''https://fancode.com/''),
         (''Origin'', ''https://fancode.com/'')]\<rparr>"

section \<open>What each handler does, path by path\<close>

subsection \<open>The worker\<close>

lemma new_Response_literals:
  "new_Response (Text ''Missing ?url='') 400 None = Inr missing_url"
  "new_Response (Text (''Proxy error: '' @ message err)) 500 None = Inr (proxy_error err)"
  by (simp_all add: new_Response_def null_body_status_def missing_url_def proxy_error_def)

lemma new_Response_accepts:
  assumes "200 \<le> st" and "st \<le> 599" and "null_body_status st \<longrightarrow> b = Null"
  shows "new_Response b st hs = Inr \<lparr>resp_body = b, resp_status = st, resp_headers = hs\<rparr>"
  using assms by (auto simp: new_Response_def)

lemma new_Response_out_of_range:
  assumes "st < 200 \<or> 599 < st"
  shows "new_Response b st hs = Inl status_range_error"
  using assms by (simp add: new_Response_def)

lemma new_Response_headers:
  "new_Response b st hs = Inr response \<Longrightarrow> resp_headers response = hs"
  by (auto simp: new_Response_def split: if_splits)

lemma worker_try_call:
  assumes "c \<in> set (snd (worker_try U F rq t ref))"
  shows "\<exists>r. U ref = Inr r \<and>
           c = \<lparr>target = t,
                init_headers =
                  [(''User-Agent'', ''Mozilla/5.0 (compatible; StreamProxy/1.0)''),
                   (''Referer'', ref),
                   (''Origin'', origin r),
                   (''Range'', or_else (req_headers rq ''Range'') '''')]\<rparr> \<and>
           snd (worker_try U F rq t ref) = [c]"
  using assms by (auto simp: worker_try_def Let_def split: sum.splits)

lemma worker_try_status:
  "resp_status (fst (worker_try U F rq t ref)) = 400 \<Longrightarrow>
   resp_headers (fst (worker_try U F rq t ref)) \<noteq> None"
  by (auto simp: worker_try_def proxy_error_def Let_def split: sum.splits
           dest: new_Response_headers)

text \<open>Every request the worker sends: when it is sent and what it carries.\<close>

lemma worker_fetch_call:
  assumes "c \<in> set (snd (worker_fetch U F rq))"
  shows "\<exists>u t ref r. U (url rq) = Inr u \<and> searchParams_get u ''url'' = Some t \<and> t \<noteq> [] \<and>
           worker_ref U (searchParams_get u ''ref'') (Some t) = Inr ref \<and> U ref = Inr r \<and>
           c = \<lparr>target = t,
                init_headers =
                  [(''User-Agent'', ''Mozilla/5.0 (compatible; StreamProxy/1.0)''),
                   (''Referer'', ref),
                   (''Origin'', origin r),
                   (''Range'', or_else (req_headers rq ''Range'') '''')]\<rparr> \<and>
           snd (worker_fetch U F rq) = [c]"
proof -
  from assms obtain u where u: "U (url rq) = Inr u"
    by (cases "U (url rq)") (auto simp: worker_fetch_def)
  from assms u obtain t where t: "searchParams_get u ''url'' = Some t" "t \<noteq> []"
    by (cases "searchParams_get u ''url''")
       (auto simp: worker_fetch_def Let_def split: sum.splits if_splits)
  from assms u t obtain ref where
    ref: "worker_ref U (searchParams_get u ''ref'') (Some t) = Inr ref"
    by (cases "worker_ref U (searchParams_get u ''ref'') (Some t)")
       (auto simp: worker_fetch_def Let_def)
  have eq: "worker_fetch U F rq =
      (Inr (fst (worker_try U F rq t ref)), snd (worker_try U F rq t ref))"
    using u t ref by (simp add: worker_fetch_def Let_def split: prod.splits)
  with assms have "c \<in> set (snd (worker_try U F rq t ref))" by simp
  from worker_try_call [OF this] eq u t ref show ?thesis by auto
qed

text \<open>The request is sent whenever the target is non-empty and the referrer parses.\<close>

lemma worker_fetch_makes_call:
  assumes "U (url rq) = Inr u" and "searchParams_get u ''url'' = Some t" and "t \<noteq> []"
    and "worker_ref U (searchParams_get u ''ref'') (Some t) = Inr ref" and "U ref = Inr r"
  shows "snd (worker_fetch U F rq) =
           [\<lparr>target = t,
             init_headers =
               [(''User-Agent'', ''Mozilla/5.0 (compatible; StreamProxy/1.0)''),
                (''Referer'', ref),
                (''Origin'', origin r),
                (''Range'', or_else (req_headers rq ''Range'') '''')]\<rparr>]"
  using assms
  by (auto simp: worker_fetch_def worker_try_def Let_def split: sum.splits prod.splits)

text \<open>Once the request is sent, the response is decided by what \<^verbatim>\<open>fetch\<close> does with it.\<close>

lemma worker_fetch_result:
  assumes "snd (worker_fetch U F rq) = [c]"
  shows "fst (worker_fetch U F rq) =
           (case F c of
              Inl err \<Rightarrow> Inr (proxy_error err)
            | Inr upstream \<Rightarrow>
                (case new_Response (body upstream) (status upstream)
                        (Some (headers upstream)) of
                   Inl err \<Rightarrow> Inr (proxy_error err)
                 | Inr response \<Rightarrow> Inr response))"
  using assms
  by (auto simp: worker_fetch_def worker_try_def Let_def
           split: sum.splits option.splits if_splits prod.splits)

lemma worker_fetch_calls_indep:
  "snd (worker_fetch U F1 rq) = snd (worker_fetch U F2 rq)"
  by (auto simp: worker_fetch_def worker_try_def Let_def
           split: sum.splits option.splits if_splits prod.splits)

lemma worker_fetch_calls_params:
  assumes "U (url r1) = Inr u1" and "U (url r2) = Inr u2"
    and "searchParams_get u1 ''url'' = searchParams_get u2 ''url''"
    and "searchParams_get u1 ''ref'' = searchParams_get u2 ''ref''"
    and "req_headers r1 ''Range'' = req_headers r2 ''Range''"
  shows "snd (worker_fetch U F1 r1) = snd (worker_fetch U F2 r2)"
  using assms
  by (auto simp: worker_fetch_def worker_try_def Let_def
           split: sum.splits option.splits if_splits prod.splits)

text \<open>The referrer when no override is given, and the two ways line 5 ends.\<close>

lemma worker_ref_no_override:
  assumes "\<not> truthy ref_param"
  shows "worker_ref U ref_param tgt =
           (case U (ToString tgt) of Inl err \<Rightarrow> Inl err | Inr t \<Rightarrow> Inr (origin t @ ''/''))"
  using assms by (auto simp: worker_ref_def truthy_def split: option.splits)

lemma worker_ref_override:
  assumes "truthy ref_param"
  shows "\<exists>s. ref_param = Some s \<and> s \<noteq> [] \<and> worker_ref U ref_param tgt = Inr s"
  using assms by (auto simp: worker_ref_def truthy_def split: option.splits)


lemma worker_fetch_ref_throws:
  assumes "U (url rq) = Inr u"
    and "worker_ref U (searchParams_get u ''ref'') (searchParams_get u ''url'') = Inl err"
  shows "worker_fetch U F rq = (Inl err, [])"
  using assms by (simp add: worker_fetch_def Let_def)

lemma worker_fetch_guard:
  assumes "U (url rq) = Inr u"
    and "worker_ref U (searchParams_get u ''ref'') (searchParams_get u ''url'') = Inr ref"
    and "\<not> truthy (searchParams_get u ''url'')"
  shows "worker_fetch U F rq = (Inr missing_url, [])"
  using assms by (auto simp: worker_fetch_def Let_def truthy_def split: option.splits)

lemma worker_fetch_past_guard:
  assumes "U (url rq) = Inr u"
    and "worker_ref U (searchParams_get u ''ref'') (searchParams_get u ''url'') = Inr ref"
    and "searchParams_get u ''url'' = Some t" and "t \<noteq> []"
  shows "fst (worker_fetch U F rq) = Inr (fst (worker_try U F rq t ref))"
  using assms by (simp add: worker_fetch_def Let_def split: prod.splits)

subsection \<open>The server\<close>

lemma stream_proxy_missing:
  assumes "query q ''url'' = None"
  shows "stream_proxy G q res =
           (res\<lparr>statusCode := 400, res_body := Sent ''Missing url param''\<rparr>, [])"
  using assms by (simp add: stream_proxy_def res_status_def res_send_def)

lemma stream_proxy_call:
  assumes "c \<in> set (snd (stream_proxy G q res))"
  shows "\<exists>tgt. query q ''url'' = Some tgt \<and> truthy_query tgt \<and>
           c = \<lparr>target = tgt,
                init_headers =
                  [(''User-Agent'', ''Mozilla/5.0''),
                   (''Referer'', ''https://fancode.com/''),
                   (''Origin'', ''https://fancode.com/'')]\<rparr> \<and>
           snd (stream_proxy G q res) = [c]"
  using assms
  by (auto simp: stream_proxy_def Let_def split: option.splits if_splits sum.splits)

lemma stream_proxy_makes_call:
  assumes "query q ''url'' = Some tgt" and "truthy_query tgt"
  shows "snd (stream_proxy G q res) =
           [\<lparr>target = tgt,
             init_headers =
               [(''User-Agent'', ''Mozilla/5.0''),
                (''Referer'', ''https://fancode.com/''),
                (''Origin'', ''https://fancode.com/'')]\<rparr>]"
  using assms by (auto simp: stream_proxy_def Let_def split: sum.splits)

lemma stream_proxy_result:
  assumes "snd (stream_proxy G q res) = [c]"
  shows "fst (stream_proxy G q res) =
           (case G c of
              Inl err \<Rightarrow>
                res\<lparr>statusCode := 500, res_body := Sent (''Proxy error: '' @ message err)\<rparr>
            | Inr response \<Rightarrow>
                res\<lparr>res_headers := (res_headers res)(''Content-Type'' \<mapsto>
                                      headers response ''content-type''),
                    res_body := Piped (body response)\<rparr>)"
  using assms
  by (auto simp: stream_proxy_def Let_def res_status_def res_send_def res_set_def pipe_def
           split: option.splits if_splits sum.splits)

lemma stream_proxy_calls_param:
  assumes "query q1 ''url'' = query q2 ''url''"
  shows "snd (stream_proxy G1 q1 res1) = snd (stream_proxy G2 q2 res2)"
  using assms
  by (auto simp: stream_proxy_def Let_def split: option.splits if_splits sum.splits)

subsection \<open>The handlers on the concrete requests\<close>

lemmas worker_defs =
  worker_fetch_def worker_ref_def worker_try_def searchParams_get_def ToString_def or_else_def
  proxy_error_def missing_url_def new_Response_def null_body_status_def

lemmas server_defs =
  stream_proxy_def res_status_def res_send_def res_set_def pipe_def new_res_def

lemma worker_fetch_playlist:
  "worker_fetch fixture_URL fixture_fetch playlist_request =
     (Inr \<lparr>resp_body = Stream ''#EXTM3U'', resp_status = 206,
           resp_headers = Some [''content-type'' \<mapsto> ''application/vnd.apple.mpegurl'']\<rparr>,
      [playlist_call])"
  by (simp add: worker_defs fixture_URL_def fixture_fetch_def playlist_request_def
      playlist_call_def playlist_def)

lemma worker_refused_playlist:
  "worker_fetch fixture_URL refusing_fetch playlist_request =
     (Inr \<lparr>resp_body = Text ''Proxy error: connection refused'', resp_status = 500,
           resp_headers = None\<rparr>,
      [playlist_call])"
  by (simp add: worker_defs fixture_URL_def refusing_fetch_def playlist_request_def
      playlist_call_def)

lemma worker_fetch_no_range:
  "snd (worker_fetch fixture_URL fixture_fetch playlist_request_no_range) =
     [playlist_call_no_range]"
  by (simp add: worker_defs fixture_URL_def fixture_fetch_def playlist_request_no_range_def
      playlist_call_no_range_def playlist_def)

lemma stream_proxy_playlist:
  "stream_proxy missing_fetch playlist_req new_res =
     (\<lparr>statusCode = 200, res_headers = [''Content-Type'' \<mapsto> Some ''text/html''],
       res_body = Piped (Stream ''Not Found'')\<rparr>,
      [node_call])"
  by (simp add: server_defs missing_fetch_def playlist_req_def node_call_def not_found_def)

lemma stream_proxy_refused:
  "stream_proxy refusing_fetch playlist_req new_res =
     (\<lparr>statusCode = 500, res_headers = Map.empty,
       res_body = Sent ''Proxy error: connection refused''\<rparr>,
      [node_call])"
  by (simp add: server_defs refusing_fetch_def playlist_req_def node_call_def)

section \<open>The claims\<close>

text \<open>
  C1. A request without the \<^verbatim>\<open>url\<close> parameter is to be answered with status 400. The
  worker does not do so when the \<^verbatim>\<open>ref\<close> parameter is missing as well: on the request
  \<^verbatim>\<open>https://proxy.example/\<close> line 5 evaluates \<^verbatim>\<open>new URL(null)\<close> before the guard of line
  7 is reached, the constructor throws, and the exception leaves the handler; no response
  is returned.
\<close>

theorem worker_missing_url_uncaught:
  "fst (worker_fetch fixture_URL fixture_fetch bare_request) = Inl (JsError ''Invalid URL'') \<and>
   fst (worker_fetch fixture_URL fixture_fetch bare_request) \<noteq> Inr missing_url"
  by (simp add: worker_defs fixture_URL_def bare_request_def)

text \<open>
  C2, as amended. In the worker, when the request is sent and \<^verbatim>\<open>fetch\<close> resolves to an
  upstream response whose status lies in 200 to 599 (with no body where the status is one
  that allows none), the response returned has the upstream status, the upstream headers
  and the upstream body.
\<close>

theorem worker_pass_through:
  assumes "snd (worker_fetch U F rq) = [c]" and "F c = Inr upstream"
    and "200 \<le> status upstream" and "status upstream \<le> 599"
    and "null_body_status (status upstream) \<longrightarrow> body upstream = Null"
  shows "fst (worker_fetch U F rq) =
           Inr \<lparr>resp_body = body upstream, resp_status = status upstream,
                resp_headers = Some (headers upstream)\<rparr>"
  using worker_fetch_result [OF assms(1)] assms(2) new_Response_accepts [OF assms(3,4,5)]
  by simp

theorem worker_pass_through_witness:
  "snd (worker_fetch fixture_URL fixture_fetch playlist_request) = [playlist_call] \<and>
   fixture_fetch playlist_call = Inr playlist \<and>
   200 \<le> status playlist \<and> status playlist \<le> 599 \<and>
   \<not> null_body_status (status playlist) \<and>
   fst (worker_fetch fixture_URL fixture_fetch playlist_request) =
     Inr \<lparr>resp_body = Stream ''#EXTM3U'', resp_status = 206,
          resp_headers = Some [''content-type'' \<mapsto> ''application/vnd.apple.mpegurl'']\<rparr>"
proof -
  have sent: "snd (worker_fetch fixture_URL fixture_fetch playlist_request) = [playlist_call]"
    by (simp add: worker_fetch_playlist)
  have served: "fixture_fetch playlist_call = Inr playlist"
    by (simp add: fixture_fetch_def playlist_call_def)
  have range: "200 \<le> status playlist" "status playlist \<le> 599"
    by (simp_all add: playlist_def)
  have nb: "\<not> null_body_status (status playlist)"
    by (simp add: playlist_def null_body_status_def)
  then have ok: "null_body_status (status playlist) \<longrightarrow> body playlist = Null" by simp
  from worker_pass_through [OF sent served range ok] sent served range nb show ?thesis
    by (simp add: playlist_def)
qed

text \<open>
  C2 as first stated fails at an upstream status outside 200 to 599: the request is sent,
  \<^verbatim>\<open>fetch\<close> resolves to a response with status 999, the constructor of lines 21 to 24
  throws inside the \<^verbatim>\<open>try\<close> statement, and the handler answers with the 500 of the
  \<^verbatim>\<open>catch\<close> clause.
\<close>

theorem worker_status_counterexample:
  "snd (worker_fetch fixture_URL denying_fetch playlist_request) = [playlist_call] \<and>
   denying_fetch playlist_call = Inr denied \<and>
   status denied = 999 \<and>
   fst (worker_fetch fixture_URL denying_fetch playlist_request) =
     Inr (proxy_error status_range_error) \<and>
   resp_status (proxy_error status_range_error) = 500 \<and>
   resp_status (proxy_error status_range_error) \<noteq> status denied"
  by (simp add: worker_defs fixture_URL_def denying_fetch_def playlist_request_def
      playlist_call_def denied_def status_range_error_def)

text \<open>
  C3. In both variants, when the \<^verbatim>\<open>fetch\<close> call throws an exception with message \<open>m\<close>,
  the handler answers with status 500 and the body \<^verbatim>\<open>Proxy error: \<close> followed by \<open>m\<close>.
\<close>

theorem fetch_throws_proxy_error:
  "(snd (worker_fetch U F rq) = [c] \<and> F c = Inl err \<longrightarrow>
      fst (worker_fetch U F rq) =
        Inr \<lparr>resp_body = Text (''Proxy error: '' @ message err), resp_status = 500,
             resp_headers = None\<rparr>) \<and>
   (snd (stream_proxy G q res) = [d] \<and> G d = Inl err' \<longrightarrow>
      statusCode (fst (stream_proxy G q res)) = 500 \<and>
      res_body (fst (stream_proxy G q res)) = Sent (''Proxy error: '' @ message err'))"
proof (intro conjI impI)
  assume "snd (worker_fetch U F rq) = [c] \<and> F c = Inl err"
  then show "fst (worker_fetch U F rq) =
      Inr \<lparr>resp_body = Text (''Proxy error: '' @ message err), resp_status = 500,
           resp_headers = None\<rparr>"
    using worker_fetch_result [of U F rq c] by (simp add: proxy_error_def)
next
  assume a: "snd (stream_proxy G q res) = [d] \<and> G d = Inl err'"
  then show "statusCode (fst (stream_proxy G q res)) = 500"
    using stream_proxy_result [of G q res d] by simp
  from a show "res_body (fst (stream_proxy G q res)) = Sent (''Proxy error: '' @ message err')"
    using stream_proxy_result [of G q res d] by simp
qed

theorem fetch_throws_proxy_error_witness:
  "snd (worker_fetch fixture_URL refusing_fetch playlist_request) = [playlist_call] \<and>
   refusing_fetch playlist_call = Inl (JsError ''connection refused'') \<and>
   fst (worker_fetch fixture_URL refusing_fetch playlist_request) =
     Inr \<lparr>resp_body = Text ''Proxy error: connection refused'', resp_status = 500,
          resp_headers = None\<rparr> \<and>
   snd (stream_proxy refusing_fetch playlist_req new_res) = [node_call] \<and>
   refusing_fetch node_call = Inl (JsError ''connection refused'') \<and>
   statusCode (fst (stream_proxy refusing_fetch playlist_req new_res)) = 500 \<and>
   res_body (fst (stream_proxy refusing_fetch playlist_req new_res)) =
     Sent ''Proxy error: connection refused''"
proof -
  have w: "snd (worker_fetch fixture_URL refusing_fetch playlist_request) = [playlist_call]"
    by (simp add: worker_refused_playlist)
  have s: "snd (stream_proxy refusing_fetch playlist_req new_res) = [node_call]"
    by (simp add: stream_proxy_refused)
  have r: "refusing_fetch playlist_call = Inl (JsError ''connection refused'')"
    "refusing_fetch node_call = Inl (JsError ''connection refused'')"
    by (simp_all add: refusing_fetch_def)
  from fetch_throws_proxy_error [of fixture_URL refusing_fetch playlist_request playlist_call
      "JsError ''connection refused''" refusing_fetch playlist_req new_res node_call
      "JsError ''connection refused''"] w s r
  show ?thesis by simp
qed

text \<open>
  C4. A request whose \<^verbatim>\<open>url\<close> parameter is present but not a URL is to end in the 500
  response of the \<^verbatim>\<open>catch\<close> clause. The worker does not do so when no \<^verbatim>\<open>ref\<close> parameter is
  given: on \<^verbatim>\<open>https://proxy.example/?url=foo\<close> the constructor call \<^verbatim>\<open>new URL("foo")\<close> of
  line 5 stands before the \<^verbatim>\<open>try\<close> statement, and its exception leaves the handler.
\<close>

theorem worker_malformed_target_uncaught:
  "fixture_URL ''foo'' = Inl (JsError ''Invalid URL'') \<and>
   worker_fetch fixture_URL fixture_fetch malformed_request = (Inl (JsError ''Invalid URL''), [])"
  by (simp add: worker_defs fixture_URL_def malformed_request_def)

text \<open>
  C5, as amended. Every request the worker sends carries a \<^verbatim>\<open>Range\<close> header: the value of
  the inbound \<^verbatim>\<open>Range\<close> header where there is one, the empty string where there is none.
  The server sends no \<^verbatim>\<open>Range\<close> header.
\<close>

theorem range_forwarding:
  "(\<forall>c \<in> set (snd (worker_fetch U F rq)).
      map_of (init_headers c) ''Range'' =
        Some (case req_headers rq ''Range'' of None \<Rightarrow> '''' | Some r \<Rightarrow> r)) \<and>
   (\<forall>d \<in> set (snd (stream_proxy G q res)). map_of (init_headers d) ''Range'' = None)"
proof (intro conjI ballI)
  fix c assume "c \<in> set (snd (worker_fetch U F rq))"
  from worker_fetch_call [OF this]
  show "map_of (init_headers c) ''Range'' =
          Some (case req_headers rq ''Range'' of None \<Rightarrow> '''' | Some r \<Rightarrow> r)"
    by (auto simp: or_else_def split: option.splits)
next
  fix d assume "d \<in> set (snd (stream_proxy G q res))"
  from stream_proxy_call [OF this]
  show "map_of (init_headers d) ''Range'' = None" by auto
qed

theorem range_forwarding_witness:
  "snd (worker_fetch fixture_URL fixture_fetch playlist_request) = [playlist_call] \<and>
   req_headers playlist_request ''Range'' = Some ''bytes=0-1023'' \<and>
   map_of (init_headers playlist_call) ''Range'' = Some ''bytes=0-1023'' \<and>
   snd (worker_fetch fixture_URL fixture_fetch playlist_request_no_range) =
     [playlist_call_no_range] \<and>
   req_headers playlist_request_no_range ''Range'' = None \<and>
   map_of (init_headers playlist_call_no_range) ''Range'' = Some [] \<and>
   snd (stream_proxy missing_fetch playlist_req new_res) = [node_call] \<and>
   map_of (init_headers node_call) ''Range'' = None"
proof -
  have w: "snd (worker_fetch fixture_URL fixture_fetch playlist_request) = [playlist_call]"
    by (simp add: worker_fetch_playlist)
  have n: "snd (worker_fetch fixture_URL fixture_fetch playlist_request_no_range) =
      [playlist_call_no_range]"
    by (rule worker_fetch_no_range)
  have s: "snd (stream_proxy missing_fetch playlist_req new_res) = [node_call]"
    by (simp add: stream_proxy_playlist)
  have h: "req_headers playlist_request ''Range'' = Some ''bytes=0-1023''"
    "req_headers playlist_request_no_range ''Range'' = None"
    by (simp_all add: playlist_request_def playlist_request_no_range_def)
  from range_forwarding [of fixture_URL fixture_fetch playlist_request missing_fetch
      playlist_req new_res] w s h(1)
  have a: "map_of (init_headers playlist_call) ''Range'' = Some ''bytes=0-1023''"
    "map_of (init_headers node_call) ''Range'' = None"
    by auto
  from range_forwarding [of fixture_URL fixture_fetch playlist_request_no_range missing_fetch
      playlist_req new_res] n h(2)
  have b: "map_of (init_headers playlist_call_no_range) ''Range'' = Some []"
    by simp
  from w n s h a b show ?thesis by simp
qed

text \<open>
  C5 as first stated fails for the server: the inbound request carries
  \<^verbatim>\<open>Range: bytes=0-1023\<close>, and the one request sent upstream has three headers, none of
  them \<^verbatim>\<open>Range\<close>.
\<close>

theorem server_range_counterexample:
  "in_headers playlist_req ''Range'' = Some ''bytes=0-1023'' \<and>
   snd (stream_proxy missing_fetch playlist_req new_res) =
     [\<lparr>target = QString ''https://cdn.example.com/live/a.m3u8'',
       init_headers =
         [(''User-Agent'', ''Mozilla/5.0''),
          (''Referer'', ''https://fancode.com/''),
          (''Origin'', ''https://fancode.com/'')]\<rparr>] \<and>
   map_of [(''User-Agent'', ''Mozilla/5.0''),
           (''Referer'', ''https://fancode.com/''),
           (''Origin'', ''https://fancode.com/'')] ''Range'' \<noteq> Some ''bytes=0-1023''"
  by (simp add: server_defs missing_fetch_def playlist_req_def not_found_def)

text \<open>
  C6, as amended. In the worker, when the \<^verbatim>\<open>ref\<close> parameter is missing or empty and the
  target parses as a URL, every request sent carries as \<^verbatim>\<open>Referer\<close> the origin of the
  target followed by a slash. In the server the \<^verbatim>\<open>Referer\<close> sent is the constant
  \<^verbatim>\<open>https://fancode.com/\<close>, whatever the target.
\<close>

theorem referer_source:
  "(U (url rq) = Inr u \<and> \<not> truthy (searchParams_get u ''ref'') \<and>
    searchParams_get u ''url'' = Some t \<and> U t = Inr tu \<longrightarrow>
      (\<forall>c \<in> set (snd (worker_fetch U F rq)).
         map_of (init_headers c) ''Referer'' = Some (origin tu @ ''/''))) \<and>
   (\<forall>d \<in> set (snd (stream_proxy G q res)).
      map_of (init_headers d) ''Referer'' = Some ''https://fancode.com/'')"
proof (intro conjI impI ballI)
  fix c
  assume a: "U (url rq) = Inr u \<and> \<not> truthy (searchParams_get u ''ref'') \<and>
    searchParams_get u ''url'' = Some t \<and> U t = Inr tu"
    and c: "c \<in> set (snd (worker_fetch U F rq))"
  from worker_fetch_call [OF c] a obtain ref where
    ref: "worker_ref U (searchParams_get u ''ref'') (Some t) = Inr ref"
    and hd: "map_of (init_headers c) ''Referer'' = Some ref"
    by auto
  from a have "worker_ref U (searchParams_get u ''ref'') (Some t) = Inr (origin tu @ ''/'')"
    by (simp add: worker_ref_no_override ToString_def)
  with ref hd show "map_of (init_headers c) ''Referer'' = Some (origin tu @ ''/'')" by simp
next
  fix d assume "d \<in> set (snd (stream_proxy G q res))"
  from stream_proxy_call [OF this]
  show "map_of (init_headers d) ''Referer'' = Some ''https://fancode.com/''" by auto
qed

theorem referer_source_witness:
  "fixture_URL (url playlist_request) =
     Inr \<lparr>origin = ''https://proxy.example'',
          searchParams = [(''url'', ''https://cdn.example.com/live/a.m3u8'')]\<rparr> \<and>
   \<not> truthy (searchParams_get
       \<lparr>origin = ''https://proxy.example'',
        searchParams = [(''url'', ''https://cdn.example.com/live/a.m3u8'')]\<rparr> ''ref'') \<and>
   searchParams_get
       \<lparr>origin = ''https://proxy.example'',
        searchParams = [(''url'', ''https://cdn.example.com/live/a.m3u8'')]\<rparr> ''url'' =
     Some ''https://cdn.example.com/live/a.m3u8'' \<and>
   fixture_URL ''https://cdn.example.com/live/a.m3u8'' =
     Inr \<lparr>origin = ''https://cdn.example.com'', searchParams = []\<rparr> \<and>
   snd (worker_fetch fixture_URL fixture_fetch playlist_request) = [playlist_call] \<and>
   map_of (init_headers playlist_call) ''Referer'' = Some ''https://cdn.example.com/'' \<and>
   snd (stream_proxy missing_fetch playlist_req new_res) = [node_call] \<and>
   map_of (init_headers node_call) ''Referer'' = Some ''https://fancode.com/''"
proof -
  let ?u = "\<lparr>origin = ''https://proxy.example'',
             searchParams = [(''url'', ''https://cdn.example.com/live/a.m3u8'')]\<rparr>"
  let ?tu = "\<lparr>origin = ''https://cdn.example.com'', searchParams = []\<rparr>"
  have h: "fixture_URL (url playlist_request) = Inr ?u"
    "\<not> truthy (searchParams_get ?u ''ref'')"
    "searchParams_get ?u ''url'' = Some ''https://cdn.example.com/live/a.m3u8''"
    "fixture_URL ''https://cdn.example.com/live/a.m3u8'' = Inr ?tu"
    by (simp_all add: fixture_URL_def playlist_request_def truthy_def searchParams_get_def)
  have w: "snd (worker_fetch fixture_URL fixture_fetch playlist_request) = [playlist_call]"
    by (simp add: worker_fetch_playlist)
  have s: "snd (stream_proxy missing_fetch playlist_req new_res) = [node_call]"
    by (simp add: stream_proxy_playlist)
  from referer_source [of fixture_URL playlist_request ?u
      "''https://cdn.example.com/live/a.m3u8''" ?tu fixture_fetch missing_fetch playlist_req
      new_res] h w s
  have "map_of (init_headers playlist_call) ''Referer'' = Some ''https://cdn.example.com/''"
    "map_of (init_headers node_call) ''Referer'' = Some ''https://fancode.com/''"
    by simp_all
  with h w s show ?thesis by simp
qed

text \<open>
  C6 as first stated fails for the server: the target \<^verbatim>\<open>https://cdn.example.com/live/a.m3u8\<close>
  has the origin \<^verbatim>\<open>https://cdn.example.com\<close>, no referrer override is given, and the
  \<^verbatim>\<open>Referer\<close> sent is \<^verbatim>\<open>https://fancode.com/\<close>.
\<close>

theorem server_referer_counterexample:
  "query playlist_req ''url'' = Some (QString ''https://cdn.example.com/live/a.m3u8'') \<and>
   query playlist_req ''ref'' = None \<and>
   fixture_URL ''https://cdn.example.com/live/a.m3u8'' =
     Inr \<lparr>origin = ''https://cdn.example.com'', searchParams = []\<rparr> \<and>
   snd (stream_proxy missing_fetch playlist_req new_res) =
     [\<lparr>target = QString ''https://cdn.example.com/live/a.m3u8'',
       init_headers =
         [(''User-Agent'', ''Mozilla/5.0''),
          (''Referer'', ''https://fancode.com/''),
          (''Origin'', ''https://fancode.com/'')]\<rparr>] \<and>
   ''https://fancode.com/'' \<noteq> ''https://cdn.example.com'' @ ''/''"
  by (simp add: server_defs missing_fetch_def playlist_req_def not_found_def fixture_URL_def)



text \<open>
  C8. In the worker the referrer of line 5 is computed before the guard of line 7 and
  outside the \<^verbatim>\<open>try\<close> statement. Where \<^verbatim>\<open>new URL\<close> rejects the text \<^verbatim>\<open>null\<close> and the empty
  string: a request with neither a \<^verbatim>\<open>url\<close> nor a non-empty \<^verbatim>\<open>ref\<close> parameter ends in the
  constructor's exception, uncaught and with no response; and the 400 response is
  returned exactly when the \<^verbatim>\<open>url\<close> parameter is missing or empty and the \<^verbatim>\<open>ref\<close> parameter
  is non-empty.
\<close>

theorem worker_ref_before_guard:
  assumes "U (url rq) = Inr u" and "U ''null'' = Inl e0" and "U [] = Inl e1"
  shows "(searchParams_get u ''url'' = None \<and> \<not> truthy (searchParams_get u ''ref'') \<longrightarrow>
            worker_fetch U F rq = (Inl e0, [])) \<and>
         (fst (worker_fetch U F rq) = Inr missing_url \<longleftrightarrow>
            \<not> truthy (searchParams_get u ''url'') \<and> truthy (searchParams_get u ''ref''))"
proof (intro conjI impI iffI)
  assume a: "searchParams_get u ''url'' = None \<and> \<not> truthy (searchParams_get u ''ref'')"
  then have "worker_ref U (searchParams_get u ''ref'') (searchParams_get u ''url'') = Inl e0"
    using assms(2) by (simp add: worker_ref_no_override ToString_def)
  from worker_fetch_ref_throws [OF assms(1) this] show "worker_fetch U F rq = (Inl e0, [])" .
next
  assume m: "fst (worker_fetch U F rq) = Inr missing_url"
  show "\<not> truthy (searchParams_get u ''url'')"
  proof
    assume "truthy (searchParams_get u ''url'')"
    then obtain t where t: "searchParams_get u ''url'' = Some t" "t \<noteq> []"
      by (auto simp: truthy_def split: option.splits)
    show False
    proof (cases "worker_ref U (searchParams_get u ''ref'') (searchParams_get u ''url'')")
      case (Inl err)
      from worker_fetch_ref_throws [OF assms(1) Inl] m show False by simp
    next
      case (Inr ref)
      from worker_fetch_past_guard [OF assms(1) Inr t] m
      have "fst (worker_try U F rq t ref) = missing_url" by simp
      with worker_try_status [of U F rq t ref] show False by (simp add: missing_url_def)
    qed
  qed
  show "truthy (searchParams_get u ''ref'')"
  proof (rule ccontr)
    assume n: "\<not> truthy (searchParams_get u ''ref'')"
    from \<open>\<not> truthy (searchParams_get u ''url'')\<close>
    have "ToString (searchParams_get u ''url'') = ''null'' \<or>
          ToString (searchParams_get u ''url'') = []"
      by (auto simp: truthy_def ToString_def split: option.splits)
    with assms(2,3) obtain err where
      "U (ToString (searchParams_get u ''url'')) = Inl err" by auto
    with n have "worker_ref U (searchParams_get u ''ref'') (searchParams_get u ''url'') = Inl err"
      by (simp add: worker_ref_no_override)
    from worker_fetch_ref_throws [OF assms(1) this] m show False by simp
  qed
next
  assume a: "\<not> truthy (searchParams_get u ''url'') \<and> truthy (searchParams_get u ''ref'')"
  then obtain s where
    "worker_ref U (searchParams_get u ''ref'') (searchParams_get u ''url'') = Inr s"
    using worker_ref_override by blast
  from worker_fetch_guard [OF assms(1) this] a
  show "fst (worker_fetch U F rq) = Inr missing_url" by simp
qed

theorem worker_ref_before_guard_witness:
  "fixture_URL (url bare_request) =
     Inr \<lparr>origin = ''https://proxy.example'', searchParams = []\<rparr> \<and>
   fixture_URL ''null'' = Inl (JsError ''Invalid URL'') \<and>
   fixture_URL [] = Inl (JsError ''Invalid URL'') \<and>
   searchParams_get \<lparr>origin = ''https://proxy.example'', searchParams = []\<rparr> ''url'' = None \<and>
   \<not> truthy (searchParams_get \<lparr>origin = ''https://proxy.example'', searchParams = []\<rparr> ''ref'') \<and>
   worker_fetch fixture_URL fixture_fetch bare_request = (Inl (JsError ''Invalid URL''), []) \<and>
   fixture_URL (url ref_only_request) =
     Inr \<lparr>origin = ''https://proxy.example'',
          searchParams = [(''ref'', ''https://site.example/'')]\<rparr> \<and>
   truthy (searchParams_get
     \<lparr>origin = ''https://proxy.example'',
      searchParams = [(''ref'', ''https://site.example/'')]\<rparr> ''ref'') \<and>
   fst (worker_fetch fixture_URL fixture_fetch ref_only_request) = Inr missing_url"
proof -
  let ?u = "\<lparr>origin = ''https://proxy.example'', searchParams = []\<rparr>"
  let ?v = "\<lparr>origin = ''https://proxy.example'',
             searchParams = [(''ref'', ''https://site.example/'')]\<rparr>"
  have p: "fixture_URL (url bare_request) = Inr ?u"
    "fixture_URL (url ref_only_request) = Inr ?v"
    "fixture_URL ''null'' = Inl (JsError ''Invalid URL'')"
    "fixture_URL [] = Inl (JsError ''Invalid URL'')"
    by (simp_all add: fixture_URL_def bare_request_def ref_only_request_def)
  have g: "searchParams_get ?u ''url'' = None" "\<not> truthy (searchParams_get ?u ''ref'')"
    "\<not> truthy (searchParams_get ?v ''url'')" "truthy (searchParams_get ?v ''ref'')"
    by (simp_all add: searchParams_get_def truthy_def)
  from worker_ref_before_guard [OF p(1) p(3) p(4), of fixture_fetch] g
  have a: "worker_fetch fixture_URL fixture_fetch bare_request = (Inl (JsError ''Invalid URL''), [])"
    by simp
  from worker_ref_before_guard [OF p(2) p(3) p(4), of fixture_fetch] g
  have b: "fst (worker_fetch fixture_URL fixture_fetch ref_only_request) = Inr missing_url"
    by simp
  from p g a b show ?thesis by simp
qed

text \<open>
  C9. In the server, when \<^verbatim>\<open>fetch\<close> resolves, the handler leaves the status code of
  \<^verbatim>\<open>res\<close> as it was, whatever the upstream status: a new response object keeps its 200. The
  only header it sets is \<^verbatim>\<open>Content-Type\<close>, from the upstream \<^verbatim>\<open>content-type\<close>, and the
  upstream body is piped into the response.
\<close>

theorem server_success_keeps_status:
  assumes "snd (stream_proxy G q res) = [d]" and "G d = Inr upstream"
  shows "statusCode (fst (stream_proxy G q res)) = statusCode res \<and>
         res_headers (fst (stream_proxy G q res)) =
           (res_headers res)(''Content-Type'' \<mapsto> headers upstream ''content-type'') \<and>
         res_body (fst (stream_proxy G q res)) = Piped (body upstream) \<and>
         statusCode (fst (stream_proxy G q new_res)) = 200 \<and>
         res_headers (fst (stream_proxy G q new_res)) =
           [''Content-Type'' \<mapsto> headers upstream ''content-type'']"
proof -
  have "snd (stream_proxy G q new_res) = snd (stream_proxy G q res)"
    by (rule stream_proxy_calls_param) simp
  with assms(1) have n: "snd (stream_proxy G q new_res) = [d]" by simp
  from stream_proxy_result [OF assms(1)] stream_proxy_result [OF n] assms(2)
  show ?thesis by (simp add: new_res_def)
qed

theorem server_success_keeps_status_witness:
  "snd (stream_proxy missing_fetch playlist_req new_res) = [node_call] \<and>
   missing_fetch node_call = Inr not_found \<and>
   status not_found = 404 \<and>
   statusCode (fst (stream_proxy missing_fetch playlist_req new_res)) = 200 \<and>
   res_headers (fst (stream_proxy missing_fetch playlist_req new_res)) =
     [''Content-Type'' \<mapsto> Some ''text/html''] \<and>
   res_body (fst (stream_proxy missing_fetch playlist_req new_res)) = Piped (Stream ''Not Found'')"
proof -
  have s: "snd (stream_proxy missing_fetch playlist_req new_res) = [node_call]"
    by (simp add: stream_proxy_playlist)
  have f: "missing_fetch node_call = Inr not_found"
    by (simp add: missing_fetch_def node_call_def)
  from server_success_keeps_status [OF s f] s f show ?thesis
    by (simp add: not_found_def new_res_def)
qed

text \<open>
  C10. The requests a handler sends are decided by the inbound request alone, and of
  it by the \<^verbatim>\<open>url\<close> and \<^verbatim>\<open>ref\<close> parameters and the \<^verbatim>\<open>Range\<close> header: two runs on the same
  request send the same requests whatever the network answers, and so do two runs of the
  worker on requests that agree on these three, and two runs of the server on requests
  that agree on \<^verbatim>\<open>url\<close>.
\<close>

theorem outbound_determined_by_inbound:
  "snd (worker_fetch U F1 rq) = snd (worker_fetch U F2 rq) \<and>
   snd (stream_proxy G1 q res1) = snd (stream_proxy G2 q res2) \<and>
   (U (url r1) = Inr u1 \<and> U (url r2) = Inr u2 \<and>
    searchParams_get u1 ''url'' = searchParams_get u2 ''url'' \<and>
    searchParams_get u1 ''ref'' = searchParams_get u2 ''ref'' \<and>
    req_headers r1 ''Range'' = req_headers r2 ''Range'' \<longrightarrow>
      snd (worker_fetch U F1 r1) = snd (worker_fetch U F2 r2)) \<and>
   (query q1 ''url'' = query q2 ''url'' \<longrightarrow>
      snd (stream_proxy G1 q1 res1) = snd (stream_proxy G2 q2 res2))"
proof (intro conjI impI)
  show "snd (worker_fetch U F1 rq) = snd (worker_fetch U F2 rq)"
    by (rule worker_fetch_calls_indep)
  show "snd (stream_proxy G1 q res1) = snd (stream_proxy G2 q res2)"
    by (rule stream_proxy_calls_param) simp
next
  assume "U (url r1) = Inr u1 \<and> U (url r2) = Inr u2 \<and>
    searchParams_get u1 ''url'' = searchParams_get u2 ''url'' \<and>
    searchParams_get u1 ''ref'' = searchParams_get u2 ''ref'' \<and>
    req_headers r1 ''Range'' = req_headers r2 ''Range''"
  then show "snd (worker_fetch U F1 r1) = snd (worker_fetch U F2 r2)"
    using worker_fetch_calls_params [of U r1 u1 r2 u2 F1 F2] by simp
next
  assume "query q1 ''url'' = query q2 ''url''"
  then show "snd (stream_proxy G1 q1 res1) = snd (stream_proxy G2 q2 res2)"
    by (rule stream_proxy_calls_param)
qed

theorem outbound_determined_by_inbound_witness:
  "fixture_URL (url playlist_request) =
     Inr \<lparr>origin = ''https://proxy.example'',
          searchParams = [(''url'', ''https://cdn.example.com/live/a.m3u8'')]\<rparr> \<and>
   fixture_URL (url playlist_request_accept) =
     Inr \<lparr>origin = ''https://proxy.example'',
          searchParams = [(''url'', ''https://cdn.example.com/live/a.m3u8'')]\<rparr> \<and>
   req_headers playlist_request ''Range'' = req_headers playlist_request_accept ''Range'' \<and>
   playlist_request \<noteq> playlist_request_accept \<and>
   snd (worker_fetch fixture_URL fixture_fetch playlist_request) = [playlist_call] \<and>
   snd (worker_fetch fixture_URL refusing_fetch playlist_request_accept) = [playlist_call] \<and>
   query playlist_req ''url'' = query playlist_req_plain ''url'' \<and>
   playlist_req \<noteq> playlist_req_plain \<and>
   snd (stream_proxy missing_fetch playlist_req new_res) = [node_call] \<and>
   snd (stream_proxy refusing_fetch playlist_req_plain (new_res\<lparr>statusCode := 204\<rparr>)) =
     [node_call]"
proof -
  let ?u = "\<lparr>origin = ''https://proxy.example'',
             searchParams = [(''url'', ''https://cdn.example.com/live/a.m3u8'')]\<rparr>"
  have p: "fixture_URL (url playlist_request) = Inr ?u"
    "fixture_URL (url playlist_request_accept) = Inr ?u"
    by (simp_all add: fixture_URL_def playlist_request_def playlist_request_accept_def)
  have r: "req_headers playlist_request ''Range'' = req_headers playlist_request_accept ''Range''"
    by (simp add: playlist_request_def playlist_request_accept_def)
  have ne: "playlist_request \<noteq> playlist_request_accept"
  proof
    assume "playlist_request = playlist_request_accept"
    then have "req_headers playlist_request ''Accept'' =
        req_headers playlist_request_accept ''Accept''"
      by simp
    then show False by (simp add: playlist_request_def playlist_request_accept_def)
  qed
  have k: "query playlist_req ''url'' = query playlist_req_plain ''url''"
    by (simp add: playlist_req_def playlist_req_plain_def)
  have nq: "playlist_req \<noteq> playlist_req_plain"
  proof
    assume "playlist_req = playlist_req_plain"
    then have "query playlist_req ''ref'' = query playlist_req_plain ''ref''" by simp
    then show False by (simp add: playlist_req_def playlist_req_plain_def)
  qed
  have w: "snd (worker_fetch fixture_URL fixture_fetch playlist_request) = [playlist_call]"
    by (simp add: worker_fetch_playlist)
  have s: "snd (stream_proxy missing_fetch playlist_req new_res) = [node_call]"
    by (simp add: stream_proxy_playlist)
  note runs = outbound_determined_by_inbound [of fixture_URL fixture_fetch playlist_request
      refusing_fetch missing_fetch playlist_req new_res refusing_fetch
      "new_res\<lparr>statusCode := 204\<rparr>" playlist_request ?u playlist_request_accept ?u
      playlist_req playlist_req_plain]
  from runs p r
  have "snd (worker_fetch fixture_URL fixture_fetch playlist_request) =
      snd (worker_fetch fixture_URL refusing_fetch playlist_request_accept)"
    by blast
  with w
  have w': "snd (worker_fetch fixture_URL refusing_fetch playlist_request_accept) =
      [playlist_call]"
    by simp
  from runs k
  have "snd (stream_proxy missing_fetch playlist_req new_res) =
      snd (stream_proxy refusing_fetch playlist_req_plain (new_res\<lparr>statusCode := 204\<rparr>))"
    by blast
  with s
  have s': "snd (stream_proxy refusing_fetch playlist_req_plain (new_res\<lparr>statusCode := 204\<rparr>)) =
      [node_call]"
    by simp
  from p r ne k nq w s w' s' show ?thesis by blast
qed

end
